theory Spec2Isabelle
  imports
    Complex_Main
    "HOL-Library.Multiset"
    "HOL-Library.List_Lexorder"
    "HOL-Library.Char_ord"
begin

section \<open>The preprocessing pipeline of \<^verbatim>\<open>automate_Irfan_Ziyadi_R.py\<close>\<close>

text \<open>
  The development embeds \<^verbatim>\<open>preprocess_data\<close> (lines 17-75 of
  \<^verbatim>\<open>src/Preprocessing/automate_Irfan_Ziyadi_R.py\<close>), the Transformer of the
  specification. The function is a sequence of calls into pandas and scikit-learn;
  each call is given here as a function named after it, with the behaviour its library
  documents:
  \<^item> a float64 that is not NaN is a \<open>number\<close>: a finite real or an infinity; NaN, the
    missing marker of a numeric column, is \<open>None\<close>;
  \<^item> float64 arithmetic rounds, and is not modelled: the mean of a column and the
    scaler's value of a cell are parameters \<open>ops\<close> of the model, so that every
    theorem holds for whatever values the arithmetic of the libraries gives;
  \<^item> strings are byte lists, compared lexicographically as Python compares
    \<^verbatim>\<open>str\<close> values;
  \<^item> the order in which a Python \<^verbatim>\<open>set\<close> of strings is iterated depends on the
    string hash of the running process; the hash is a parameter \<open>hash\<close> of the model;
  \<^item> the numeric literal parser of \<^verbatim>\<open>pd.to_numeric\<close> is a parameter \<open>parse\<close>;
  \<^item> \<^verbatim>\<open>logging.warning\<close> appends to a list of events returned with the result, and
    a raised exception is the \<open>Inl\<close> branch of the result.
\<close>

subsection \<open>Tables\<close>

text \<open>
  A value of the Raw Table: numeric, textual or missing. A numeric cell is finite; an
  infinite one is given by its text (\<^verbatim>\<open>inf\<close>, \<^verbatim>\<open>-inf\<close>), which coercion
  reads back.
\<close>

datatype cell = Num real | Txt string | NA

text \<open>A value of a float64 column that is not NaN.\<close>

datatype number = Finite real | PosInf | NegInf

text \<open>
  The Raw Table (a \<^verbatim>\<open>pd.DataFrame\<close>): its column labels and its rows, each row
  holding one cell per column.
\<close>

record dataframe =
  columns :: "string list"
  rows :: "cell list list"

definition wf_dataframe :: "dataframe \<Rightarrow> bool" where
  "wf_dataframe df \<longleftrightarrow>
     distinct (columns df) \<and> list_all (\<lambda>r. length r = length (columns df)) (rows df)"

text \<open>
  A frame seen column by column, as the code handles the Feature Matrix:
  the labelled columns in order. \<^verbatim>\<open>pd.DataFrame()\<close> is the frame with no column.
\<close>

type_synonym 'a frame = "(string \<times> 'a list) list"

text \<open>
  A column of the Processed Table: floats (\<open>None\<close> is NaN) or integers.
\<close>

datatype series = FloatCol "number option list" | IntCol "nat list"

type_synonym processed = "(string \<times> series) list"

text \<open>The number of rows of a column of the Processed Table.\<close>

fun series_length :: "series \<Rightarrow> nat" where
  "series_length (FloatCol vs) = length vs"
| "series_length (IntCol ks) = length ks"

text \<open>The Label Mapping: a Python \<^verbatim>\<open>dict\<close>, its items in insertion order.\<close>

type_synonym label_mapping = "(cell \<times> nat) list"

text \<open>
  The exceptions \<^verbatim>\<open>preprocess_data\<close> can raise. \<open>SchemaError\<close> is the
  \<^verbatim>\<open>ValueError\<close> of line 32 with the sorted list it prints, \<open>NoUsableFeatures\<close>
  the \<^verbatim>\<open>ValueError\<close> of line 62, \<open>EncoderTypeError\<close> the \<^verbatim>\<open>TypeError\<close> of
  scikit-learn's \<^verbatim>\<open>LabelEncoder\<close> on labels that are not uniformly strings or
  numbers, and \<open>ScalerValueError\<close> the \<^verbatim>\<open>ValueError\<close> of scikit-learn's
  \<^verbatim>\<open>StandardScaler\<close> on input that contains an infinity.
\<close>

datatype error =
  SchemaError "string list" | EncoderTypeError | NoUsableFeatures | ScalerValueError

text \<open>The two \<^verbatim>\<open>logging.warning\<close> calls (lines 48 and 58).\<close>

datatype event = Warn_no_numeric_features | Warn_dropped_columns "string list"

subsection \<open>\<^verbatim>\<open>df.drop_duplicates()\<close>\<close>

text \<open>
  pandas marks a row as duplicated when an equal row stands before it
  (\<^verbatim>\<open>keep='first'\<close>) and keeps the others in place. \<open>seen\<close> holds the rows met
  so far.
\<close>

fun keep_first :: "'a list \<Rightarrow> 'a list \<Rightarrow> 'a list" where
  "keep_first seen [] = []"
| "keep_first seen (r # rs) =
     (if r \<in> set seen then keep_first seen rs else r # keep_first (r # seen) rs)"

definition drop_duplicates :: "dataframe \<Rightarrow> dataframe" where
  "drop_duplicates df = df\<lparr>rows := keep_first [] (rows df)\<rparr>"

subsection \<open>Required columns\<close>

text \<open>
  Iterating a Python set yields its elements in an order fixed by their hashes; equal
  elements are met once.
\<close>

definition py_set_iter :: "('a \<Rightarrow> nat) \<Rightarrow> 'a list \<Rightarrow> 'a list" where
  "py_set_iter hash xs = sort_key hash (remdups xs)"

definition required_cols :: "string list" where
  "required_cols = [''weather'', ''date'']"

text \<open>\<^verbatim>\<open>missing = required_cols - set(df.columns)\<close>, as iterated.\<close>

definition missing_cols :: "(string \<Rightarrow> nat) \<Rightarrow> dataframe \<Rightarrow> string list" where
  "missing_cols hash df =
     py_set_iter hash (filter (\<lambda>c. c \<notin> set (columns df)) required_cols)"

subsection \<open>Selecting columns\<close>

fun index_of :: "'a \<Rightarrow> 'a list \<Rightarrow> nat" where
  "index_of c [] = 0"
| "index_of c (x # xs) = (if x = c then 0 else Suc (index_of c xs))"

text \<open>
  \<^verbatim>\<open>df[c]\<close>: the cells of column \<open>c\<close>, one per row. The code reads a column only
  after the check of the required columns, or by a label taken from \<open>columns df\<close>, so
  the position is in range for every row of a well-formed table.
\<close>

definition column :: "dataframe \<Rightarrow> string \<Rightarrow> cell list" where
  "column df c = map (\<lambda>r. r ! index_of c (columns df)) (rows df)"

text \<open>\<^verbatim>\<open>df.drop(columns=cs)\<close>: the other columns, in their order.\<close>

definition drop_columns :: "dataframe \<Rightarrow> string list \<Rightarrow> cell frame" where
  "drop_columns df cs =
     map (\<lambda>c. (c, column df c)) (filter (\<lambda>c. c \<notin> set cs) (columns df))"

text \<open>
  \<^verbatim>\<open>X.empty\<close>: true when either axis has length zero, that is, when the frame has no
  column or its columns have no row.
\<close>

definition frame_empty :: "'a frame \<Rightarrow> bool" where
  "frame_empty X = (case X of [] \<Rightarrow> True | (c, vs) # _ \<Rightarrow> vs = [])"

subsection \<open>\<^verbatim>\<open>LabelEncoder\<close>\<close>

fun texts :: "cell list \<Rightarrow> string list" where
  "texts [] = []"
| "texts (Txt s # cs) = s # texts cs"
| "texts (_ # cs) = texts cs"

fun numbers :: "cell list \<Rightarrow> real list" where
  "numbers [] = []"
| "numbers (Num x # cs) = x # numbers cs"
| "numbers (_ # cs) = numbers cs"

text \<open>
  \<^verbatim>\<open>fit\<close>: \<^verbatim>\<open>classes_\<close> is the sorted array of the distinct labels, a missing
  label last. Strings and numbers do not compare: labels of both kinds raise.
\<close>

definition label_encoder_fit :: "cell list \<Rightarrow> error + cell list" where
  "label_encoder_fit y =
     (if texts y \<noteq> [] \<and> numbers y \<noteq> [] then Inl EncoderTypeError
      else Inr (map Txt (sort (remdups (texts y))) @ map Num (sort (remdups (numbers y)))
                @ (if NA \<in> set y then [NA] else [])))"

text \<open>
  \<^verbatim>\<open>transform\<close>: each label's position in \<^verbatim>\<open>classes_\<close>. The code passes fitted
  labels only (the fitted column itself, and \<^verbatim>\<open>classes_\<close>).
\<close>

definition label_encoder_transform :: "cell list \<Rightarrow> cell list \<Rightarrow> nat list" where
  "label_encoder_transform classes y = map (\<lambda>v. index_of v classes) y"


subsection \<open>Floating-point arithmetic\<close>

text \<open>
  The two places where the libraries compute in float64. \<open>mean_of\<close> is the mean that
  pandas gives for the values of a column that are not NaN; it may be NaN or an
  infinity (on overflow, or when an infinity is among the values). \<open>scale_of xs x\<close> is
  the value that \<^verbatim>\<open>StandardScaler\<close>, fitted on the values \<open>xs\<close> of a column, gives
  for the cell \<open>x\<close> of that column; it may be NaN.
\<close>

record arith =
  mean_of :: "number list \<Rightarrow> number option"
  scale_of :: "number list \<Rightarrow> number \<Rightarrow> number option"

subsection \<open>Numeric coercion, pruning and imputation\<close>

text \<open>
  \<^verbatim>\<open>pd.to_numeric(s, errors="coerce")\<close>: a number stays, a string is parsed, and
  what does not parse, or is missing, is NaN. A string may parse to an infinity
  (\<^verbatim>\<open>"inf"\<close>, \<^verbatim>\<open>"-inf"\<close>).
\<close>

fun to_numeric_cell :: "(string \<Rightarrow> number option) \<Rightarrow> cell \<Rightarrow> number option" where
  "to_numeric_cell parse (Num x) = Some (Finite x)"
| "to_numeric_cell parse (Txt s) = parse s"
| "to_numeric_cell parse NA = None"

definition to_numeric :: "(string \<Rightarrow> number option) \<Rightarrow> cell list \<Rightarrow> number option list" where
  "to_numeric parse vs = map (to_numeric_cell parse) vs"

text \<open>\<^verbatim>\<open>X.apply(f)\<close>: \<open>f\<close> on every column.\<close>

definition apply_cols :: "('a list \<Rightarrow> 'b list) \<Rightarrow> 'a frame \<Rightarrow> 'b frame" where
  "apply_cols f X = map (\<lambda>(c, vs). (c, f vs)) X"

text \<open>\<^verbatim>\<open>[c for c in X.columns if X[c].isna().all()]\<close>\<close>

definition all_na_cols :: "number option frame \<Rightarrow> string list" where
  "all_na_cols X = map fst (filter (\<lambda>(c, vs). list_all (\<lambda>v. v = None) vs) X)"

text \<open>\<^verbatim>\<open>X.drop(columns=cs)\<close>\<close>

definition drop_cols :: "'a frame \<Rightarrow> string list \<Rightarrow> 'a frame" where
  "drop_cols X cs = filter (\<lambda>(c, vs). c \<notin> set cs) X"

text \<open>The values of a column that are not NaN.\<close>

fun present :: "'a option list \<Rightarrow> 'a list" where
  "present [] = []"
| "present (Some x # vs) = x # present vs"
| "present (None # vs) = present vs"

text \<open>
  The mean of a column as pandas computes it (\<^verbatim>\<open>skipna=True\<close>): over the values
  that are not NaN. It is NaN when there is none, and NaN when both infinities are
  among them (their sum is NaN); otherwise it is the float64 mean of the values.
\<close>

definition series_mean :: "arith \<Rightarrow> number option list \<Rightarrow> number option" where
  "series_mean ops vs =
     (if present vs = [] then None
      else if PosInf \<in> set (present vs) \<and> NegInf \<in> set (present vs) then None
      else mean_of ops (present vs))"

text \<open>\<^verbatim>\<open>s.fillna(m)\<close>: NaN cells take the value \<open>m\<close> (which may itself be NaN).\<close>

definition fillna :: "number option list \<Rightarrow> number option \<Rightarrow> number option list" where
  "fillna vs m = map (\<lambda>v. case v of None \<Rightarrow> m | Some x \<Rightarrow> Some x) vs"

text \<open>\<^verbatim>\<open>X.fillna(X.mean())\<close>: every column filled with its own mean.\<close>

definition fillna_mean :: "arith \<Rightarrow> number option list \<Rightarrow> number option list" where
  "fillna_mean ops vs = fillna vs (series_mean ops vs)"

subsection \<open>\<^verbatim>\<open>StandardScaler\<close>\<close>

text \<open>
  \<^verbatim>\<open>fit_transform\<close> first validates its input: an infinite value anywhere in the
  frame raises \<^verbatim>\<open>ValueError\<close>, while NaN is allowed. It then fits every column on
  its values that are not NaN and transforms each of them; NaN stays NaN. What the
  fitted mean and divisor are, and so the statistics of a scaled column, is float64
  arithmetic (with the scaler's unit divisor for constant and near-constant columns):
  it is left to \<open>scale_of\<close>.
\<close>

definition has_inf :: "number option list \<Rightarrow> bool" where
  "has_inf vs \<longleftrightarrow> Some PosInf \<in> set vs \<or> Some NegInf \<in> set vs"

definition transform_column :: "arith \<Rightarrow> number option list \<Rightarrow> number option list" where
  "transform_column ops vs =
     map (\<lambda>v. case v of None \<Rightarrow> None | Some x \<Rightarrow> scale_of ops (present vs) x) vs"

definition fit_transform :: "arith \<Rightarrow> number option frame \<Rightarrow> error + number option frame" where
  "fit_transform ops X =
     (if list_ex (\<lambda>(c, vs). has_inf vs) X then Inl ScalerValueError
      else Inr (apply_cols (transform_column ops) X))"

subsection \<open>\<^verbatim>\<open>preprocess_data\<close>\<close>

text \<open>
  Line 35: the Feature Matrix \<^verbatim>\<open>X\<close> of the de-duplicated table \<open>df\<close>.
\<close>

definition features :: "dataframe \<Rightarrow> cell frame" where
  "features df =
     (if length (columns df) > 2 then drop_columns df [''weather'', ''date''] else [])"

text \<open>
  Lines 56-59: the columns that are NaN throughout are reported and dropped.
\<close>

definition dropped_warning :: "number option frame \<Rightarrow> event list" where
  "dropped_warning X_numeric =
     (if all_na_cols X_numeric \<noteq> [] then [Warn_dropped_columns (all_na_cols X_numeric)]
      else [])"

definition prune :: "number option frame \<Rightarrow> number option frame" where
  "prune X_numeric =
     (if all_na_cols X_numeric \<noteq> [] then drop_cols X_numeric (all_na_cols X_numeric)
      else X_numeric)"

text \<open>Lines 52-69: coercion, pruning, imputation and scaling of a non-empty frame.\<close>

definition scale_features ::
  "(string \<Rightarrow> number option) \<Rightarrow> arith \<Rightarrow> cell frame
     \<Rightarrow> event list \<times> (error + number option frame)" where
  "scale_features parse ops X =
     (let X_numeric = apply_cols (to_numeric parse) X;
          events = dropped_warning X_numeric;
          X_kept = prune X_numeric
      in if length X_kept = 0 then (events, Inl NoUsableFeatures)
         else (events, fit_transform ops (apply_cols (fillna_mean ops) X_kept)))"

text \<open>
  Lines 26-75. The events are those logged up to the return or the raise.
\<close>

definition preprocess_data ::
  "(string \<Rightarrow> nat) \<Rightarrow> (string \<Rightarrow> number option) \<Rightarrow> arith \<Rightarrow> dataframe
     \<Rightarrow> event list \<times> (error + processed \<times> label_mapping)" where
  "preprocess_data hash parse ops df0 =
     (let df = drop_duplicates df0;
          missing = missing_cols hash df
      in if missing \<noteq> [] then ([], Inl (SchemaError (sort missing)))
         else
           let X = features df;
               y = column df ''weather''
           in case label_encoder_fit y of
                Inl e \<Rightarrow> ([], Inl e)
              | Inr classes \<Rightarrow>
                  let y_encoded = label_encoder_transform classes y;
                      label_mapping = zip classes (label_encoder_transform classes classes)
                  in if frame_empty X
                     then ([Warn_no_numeric_features],
                           Inr ([(''weather'', IntCol y_encoded)], label_mapping))
                     else
                       case scale_features parse ops X of
                         (events, Inl e) \<Rightarrow> (events, Inl e)
                       | (events, Inr X_scaled) \<Rightarrow>
                           (events,
                            Inr (map (\<lambda>(c, vs). (c, FloatCol vs)) X_scaled
                                   @ [(''weather'', IntCol y_encoded)],
                                 label_mapping)))"

subsection \<open>Concrete inputs\<close>

text \<open>
  A string hash under which the set \<open>{weather, date}\<close> is iterated as
  \<open>weather, date\<close>, and a parser of unsigned decimal integers and of the two
  infinities, one instance of the numeric parser.
\<close>

definition example_hash :: "string \<Rightarrow> nat" where
  "example_hash s = 100 - length s"

fun digits_value :: "nat \<Rightarrow> string \<Rightarrow> nat option" where
  "digits_value acc [] = Some acc"
| "digits_value acc (c # cs) =
     (if CHR ''0'' \<le> c \<and> c \<le> CHR ''9''
      then digits_value (10 * acc + (of_char c - of_char CHR ''0'')) cs
      else None)"

definition parse_digits :: "string \<Rightarrow> number option" where
  "parse_digits s =
     (if s = ''inf'' then Some PosInf
      else if s = ''-inf'' then Some NegInf
      else if s = [] then None
      else map_option (\<lambda>n. Finite (real n)) (digits_value 0 s))"

text \<open>
  Arithmetic without rounding, one instance of the float64 arithmetic: the mean of
  finite values is their sum divided by their number, and an infinity among the values
  is their mean; the scaler subtracts the mean and divides by the population standard
  deviation (\<^verbatim>\<open>np.var\<close> with \<^verbatim>\<open>ddof=0\<close>: the squared deviations are divided by
  the number of values), or by 1 where that is zero. It agrees with float64 on the
  tables below, whose intermediate values are all small integers.
\<close>

fun finite_parts :: "number list \<Rightarrow> real list" where
  "finite_parts [] = []"
| "finite_parts (Finite x # xs) = x # finite_parts xs"
| "finite_parts (_ # xs) = finite_parts xs"

definition np_mean :: "real list \<Rightarrow> real" where
  "np_mean xs = sum_list xs / real (length xs)"

definition np_var :: "real list \<Rightarrow> real" where
  "np_var xs = sum_list (map (\<lambda>x. (x - np_mean xs)\<^sup>2) xs) / real (length xs)"

definition exact_mean :: "number list \<Rightarrow> number option" where
  "exact_mean xs =
     (if PosInf \<in> set xs then Some PosInf
      else if NegInf \<in> set xs then Some NegInf
      else Some (Finite (np_mean (finite_parts xs))))"

fun exact_scale :: "number list \<Rightarrow> number \<Rightarrow> number option" where
  "exact_scale xs (Finite x) =
     Some (Finite ((x - np_mean (finite_parts xs))
                   / (if sqrt (np_var (finite_parts xs)) = 0 then 1
                      else sqrt (np_var (finite_parts xs)))))"
| "exact_scale xs PosInf = None"
| "exact_scale xs NegInf = None"

definition exact_arith :: arith where
  "exact_arith = \<lparr>mean_of = exact_mean, scale_of = exact_scale\<rparr>"

text \<open>The end-to-end example of the specification: three rows, the last a copy of the first.\<close>

definition seattle_example :: dataframe where
  "seattle_example =
     \<lparr>columns = [''date'', ''weather'', ''temp''],
      rows = [[Txt ''2020-01-01'', Txt ''rain'', Num 10],
              [Txt ''2020-01-02'', Txt ''sun'', Num 20],
              [Txt ''2020-01-01'', Txt ''rain'', Num 10]]\<rparr>"

text \<open>A table with neither required column.\<close>

definition temp_only_example :: dataframe where
  "temp_only_example = \<lparr>columns = [''temp''], rows = [[Num 10]]\<rparr>"

text \<open>A table with a feature column and no row, as read from a file holding a header only.\<close>

definition header_only_example :: dataframe where
  "header_only_example = \<lparr>columns = [''date'', ''weather'', ''temp''], rows = []\<rparr>"

text \<open>A table with the two required columns only.\<close>

definition target_only_example :: dataframe where
  "target_only_example =
     \<lparr>columns = [''date'', ''weather''],
      rows = [[Txt ''2020-01-01'', Txt ''rain''], [Txt ''2020-01-02'', Txt ''sun'']]\<rparr>"

text \<open>A table whose only feature column holds text that is no number.\<close>

definition note_example :: dataframe where
  "note_example =
     \<lparr>columns = [''date'', ''weather'', ''note''],
      rows = [[Txt ''2020-01-01'', Txt ''rain'', Txt ''wet''],
              [Txt ''2020-01-02'', Txt ''sun'', Txt ''dry'']]\<rparr>"

text \<open>
  A table whose feature column has gaps: a text that is no number, and a missing cell.
\<close>

definition gap_example :: dataframe where
  "gap_example =
     \<lparr>columns = [''date'', ''weather'', ''temp''],
      rows = [[Txt ''2020-01-01'', Txt ''rain'', Num 10],
              [Txt ''2020-01-02'', Txt ''sun'', Txt ''n/a''],
              [Txt ''2020-01-03'', Txt ''sun'', Num 20],
              [Txt ''2020-01-04'', Txt ''rain'', NA]]\<rparr>"

text \<open>A table whose feature column is constant once coerced and imputed.\<close>

definition constant_example :: dataframe where
  "constant_example =
     \<lparr>columns = [''date'', ''weather'', ''temp''],
      rows = [[Txt ''2020-01-01'', Txt ''rain'', Num 5],
              [Txt ''2020-01-02'', Txt ''sun'', NA],
              [Txt ''2020-01-03'', Txt ''sun'', Txt ''5'']]\<rparr>"

text \<open>
  A table whose feature column holds both infinities, as texts, and a missing cell.
\<close>

definition inf_gap_example :: dataframe where
  "inf_gap_example =
     \<lparr>columns = [''date'', ''weather'', ''temp''],
      rows = [[Txt ''2020-01-01'', Txt ''rain'', Txt ''inf''],
              [Txt ''2020-01-02'', Txt ''sun'', Txt ''-inf''],
              [Txt ''2020-01-03'', Txt ''sun'', NA]]\<rparr>"

text \<open>A table whose feature column is constant and infinite.\<close>

definition inf_constant_example :: dataframe where
  "inf_constant_example =
     \<lparr>columns = [''date'', ''weather'', ''temp''],
      rows = [[Txt ''2020-01-01'', Txt ''rain'', Txt ''inf''],
              [Txt ''2020-01-02'', Txt ''sun'', Txt ''inf'']]\<rparr>"

section \<open>De-duplication\<close>

lemma keep_first_positions:
  "keep_first seen xs =
     map ((!) xs) (filter (\<lambda>i. xs ! i \<notin> set seen \<union> set (take i xs)) [0..<length xs])"
proof (induction xs arbitrary: seen)
  case Nil
  show ?case by simp
next
  case (Cons x xs)
  have shift: "[0..<Suc (length xs)] = 0 # map Suc [0..<length xs]"
    by (simp add: upt_conv_Cons map_Suc_upt del: upt_Suc)
  show ?case
  proof (cases "x \<in> set seen")
    case True
    then have same: "(v \<notin> set seen \<and> v \<noteq> x \<and> Q) = (v \<notin> set seen \<and> Q)" for v Q
      by auto
    from True show ?thesis
      by (simp add: shift Cons.IH [of seen] filter_map o_def same del: upt_Suc)
  next
    case False
    have same: "(v \<noteq> x \<and> v \<notin> set seen \<and> Q) = (v \<notin> set seen \<and> v \<noteq> x \<and> Q)" for v Q
      by auto
    from False show ?thesis
      by (simp add: shift Cons.IH [of "x # seen"] filter_map o_def same del: upt_Suc)
  qed
qed

lemma set_keep_first: "set (keep_first seen xs) = set xs - set seen"
  by (induction xs arbitrary: seen) auto

lemma distinct_keep_first: "distinct (keep_first seen xs)"
  by (induction xs arbitrary: seen) (auto simp: set_keep_first)

lemma keep_first_distinct_id:
  "distinct xs \<Longrightarrow> set xs \<inter> set seen = {} \<Longrightarrow> keep_first seen xs = xs"
  by (induction xs arbitrary: seen) auto

lemma keep_first_idem: "keep_first [] (keep_first [] xs) = keep_first [] xs"
  by (rule keep_first_distinct_id) (simp_all add: distinct_keep_first)

text \<open>
  Claim C5. De-duplication keeps exactly the rows that equal no earlier row: row \<open>i\<close>
  of the table survives if and only if it differs from each of the rows \<open>0..i-1\<close>, and
  the survivors stand in their original order (so the first occurrence of every
  distinct row is kept and every later copy is removed). The result has no two equal
  rows, holds the same distinct rows as the input and the same columns, and
  de-duplicating it again changes nothing.
\<close>

theorem C5_drop_duplicates_keeps_first:
  "rows (drop_duplicates df) =
     map ((!) (rows df)) (filter (\<lambda>i. rows df ! i \<notin> set (take i (rows df))) [0..<length (rows df)])
   \<and> distinct (rows (drop_duplicates df))
   \<and> set (rows (drop_duplicates df)) = set (rows df)
   \<and> columns (drop_duplicates df) = columns df
   \<and> drop_duplicates (drop_duplicates df) = drop_duplicates df"
proof -
  have "keep_first [] (rows df) =
      map ((!) (rows df)) (filter (\<lambda>i. rows df ! i \<notin> set (take i (rows df))) [0..<length (rows df)])"
    using keep_first_positions [of "[]" "rows df"] by simp
  then have "rows (drop_duplicates df) =
      map ((!) (rows df)) (filter (\<lambda>i. rows df ! i \<notin> set (take i (rows df))) [0..<length (rows df)])"
    by (simp only: drop_duplicates_def) simp
  moreover have "distinct (rows (drop_duplicates df))"
    by (simp add: drop_duplicates_def distinct_keep_first)
  moreover have "set (rows (drop_duplicates df)) = set (rows df)"
    by (simp add: drop_duplicates_def set_keep_first)
  moreover have "columns (drop_duplicates df) = columns df"
    by (simp add: drop_duplicates_def)
  moreover have "drop_duplicates (drop_duplicates df) = drop_duplicates df"
    by (simp add: drop_duplicates_def keep_first_idem)
  ultimately show ?thesis by blast
qed

section \<open>Well-formed tables\<close>

text \<open>
  A pandas table has one cell per column in every row, and a table read from a file has
  distinct column labels. De-duplication keeps this, and in such a table every read of
  a column that the table has is in range.
\<close>

lemma wf_drop_duplicates: "wf_dataframe df \<Longrightarrow> wf_dataframe (drop_duplicates df)"
  by (auto simp: wf_dataframe_def drop_duplicates_def list_all_iff set_keep_first)

lemma column_in_range:
  assumes "wf_dataframe df" and "c \<in> set (columns df)"
  shows "list_all (\<lambda>r. index_of c (columns df) < length r) (rows df)"
proof -
  have "c \<in> set xs \<Longrightarrow> index_of c xs < length xs" for xs
    by (induction xs) auto
  then have "index_of c (columns df) < length (columns df)"
    using assms(2) by blast
  with assms(1) show ?thesis
    by (auto simp: wf_dataframe_def list_all_iff)
qed

lemma wf_examples:
  "wf_dataframe seattle_example" "wf_dataframe temp_only_example"
  "wf_dataframe header_only_example" "wf_dataframe target_only_example"
  "wf_dataframe note_example" "wf_dataframe gap_example" "wf_dataframe constant_example"
  "wf_dataframe inf_gap_example" "wf_dataframe inf_constant_example"
  by (simp_all add: wf_dataframe_def seattle_example_def temp_only_example_def
        header_only_example_def target_only_example_def note_example_def gap_example_def
        constant_example_def inf_gap_example_def inf_constant_example_def)

section \<open>Schema validation\<close>

lemma sort_py_set_iter: "sort (py_set_iter h xs) = sort (remdups xs)"
proof -
  have "mset (py_set_iter h xs) = mset (remdups xs)"
    by (simp add: py_set_iter_def)
  then show ?thesis
    by (metis sorted_list_of_multiset_mset)
qed

lemma py_set_iter_Nil_iff: "py_set_iter h xs = [] \<longleftrightarrow> xs = []"
proof -
  have "length (py_set_iter h xs) = length (remdups xs)"
    by (simp add: py_set_iter_def)
  then show ?thesis
    by (metis length_0_conv remdups_eq_nil_iff)
qed

lemma missing_cols_Nil_iff:
  "missing_cols h df = [] \<longleftrightarrow> ''weather'' \<in> set (columns df) \<and> ''date'' \<in> set (columns df)"
  by (simp add: missing_cols_def py_set_iter_Nil_iff required_cols_def)

lemma sort_missing_cols:
  "sort (missing_cols h df) = filter (\<lambda>c. c \<notin> set (columns df)) [''date'', ''weather'']"
  by (simp add: missing_cols_def sort_py_set_iter required_cols_def)

lemma columns_drop_duplicates: "columns (drop_duplicates df) = columns df"
  by (simp add: drop_duplicates_def)

lemma preprocess_data_schema_error:
  assumes "''weather'' \<notin> set (columns df) \<or> ''date'' \<notin> set (columns df)"
  shows "preprocess_data h p ops df =
    ([], Inl (SchemaError (filter (\<lambda>c. c \<notin> set (columns df)) [''date'', ''weather''])))"
proof -
  have "missing_cols h (drop_duplicates df) \<noteq> []"
    using assms by (simp add: missing_cols_Nil_iff columns_drop_duplicates)
  then show ?thesis
    by (simp add: preprocess_data_def Let_def sort_missing_cols columns_drop_duplicates)
qed

text \<open>
  Claim C6. A table that lacks \<open>weather\<close>, \<open>date\<close> or both is rejected, whatever the
  iteration order of the set of missing names: the run logs nothing and raises the
  schema error with the list \<open>ms\<close> of exactly the required names that are not columns
  of the table, in strictly ascending (alphabetical) order. Lacking only \<open>weather\<close>
  the list is \<open>[weather]\<close>, lacking only \<open>date\<close> it is \<open>[date]\<close>, and lacking both it
  is \<open>[date, weather]\<close>.
\<close>

theorem C6_missing_columns_rejected:
  assumes "''weather'' \<notin> set (columns df) \<or> ''date'' \<notin> set (columns df)"
  shows "\<exists>ms. preprocess_data hash parse ops df = ([], Inl (SchemaError ms))
           \<and> set ms = {''weather'', ''date''} - set (columns df)
           \<and> sorted_wrt (<) ms
           \<and> (''weather'' \<notin> set (columns df) \<and> ''date'' \<in> set (columns df) \<longrightarrow> ms = [''weather''])
           \<and> (''weather'' \<in> set (columns df) \<and> ''date'' \<notin> set (columns df) \<longrightarrow> ms = [''date''])
           \<and> (''weather'' \<notin> set (columns df) \<and> ''date'' \<notin> set (columns df)
                \<longrightarrow> ms = [''date'', ''weather''])"
proof -
  let ?ms = "filter (\<lambda>c. c \<notin> set (columns df)) [''date'', ''weather'']"
  have "preprocess_data hash parse ops df = ([], Inl (SchemaError ?ms))"
    using assms by (rule preprocess_data_schema_error)
  moreover have "set ?ms = {''weather'', ''date''} - set (columns df)"
    by auto
  moreover have "sorted_wrt (<) ?ms"
    by simp
  ultimately show ?thesis
    by (intro exI [of _ ?ms]) simp
qed

text \<open>
  The table with the single column \<open>temp\<close> lacks both names; under \<open>example_hash\<close> the
  set of missing names is iterated as \<open>weather, date\<close>, and the error lists
  \<open>date, weather\<close>.
\<close>

theorem C6_missing_columns_rejected_witness:
  "missing_cols example_hash (drop_duplicates temp_only_example) = [''weather'', ''date'']
   \<and> preprocess_data example_hash parse_digits exact_arith temp_only_example
       = ([], Inl (SchemaError [''date'', ''weather'']))"
proof -
  have "missing_cols example_hash (drop_duplicates temp_only_example) = [''weather'', ''date'']"
    by (simp add: missing_cols_def example_hash_def py_set_iter_def required_cols_def
          temp_only_example_def drop_duplicates_def)
  moreover have "preprocess_data example_hash parse_digits exact_arith temp_only_example
       = ([], Inl (SchemaError [''date'', ''weather'']))"
    using C6_missing_columns_rejected [of temp_only_example example_hash parse_digits exact_arith]
    by (auto simp: temp_only_example_def)
  ultimately show ?thesis by simp
qed

section \<open>Target encoding\<close>





lemma index_of_nth: "distinct xs \<Longrightarrow> i < length xs \<Longrightarrow> index_of (xs ! i) xs = i"
proof (induction xs arbitrary: i)
  case Nil
  then show ?case by simp
next
  case (Cons x xs)
  then show ?case by (cases i) auto
qed

lemma map_index_of_self: "distinct xs \<Longrightarrow> map (\<lambda>v. index_of v xs) xs = [0..<length xs]"
  by (rule nth_equalityI) (simp_all add: index_of_nth)


lemma label_encoder_fit_distinct:
  assumes "label_encoder_fit y = Inr classes"
  shows "distinct classes"
proof -
  have classes: "classes = map Txt (sort (remdups (texts y))) @ map Num (sort (remdups (numbers y)))
      @ (if NA \<in> set y then [NA] else [])"
    using assms by (simp add: label_encoder_fit_def split: if_splits)
  show ?thesis
    by (auto simp: classes distinct_map inj_on_def)
qed







section \<open>The outcomes of a run\<close>

lemma scale_features_eq:
  "scale_features p ops X =
     (dropped_warning (apply_cols (to_numeric p) X),
      if prune (apply_cols (to_numeric p) X) = [] then Inl NoUsableFeatures
      else if list_ex (\<lambda>(c, vs). has_inf vs)
                (apply_cols (fillna_mean ops) (prune (apply_cols (to_numeric p) X)))
      then Inl ScalerValueError
      else Inr (apply_cols (transform_column ops)
                  (apply_cols (fillna_mean ops) (prune (apply_cols (to_numeric p) X)))))"
  by (simp add: scale_features_def fit_transform_def Let_def)

lemma label_mapping_eq:
  assumes "label_encoder_fit y = Inr classes"
  shows "zip classes (label_encoder_transform classes classes) = zip classes [0..<length classes]"
  using label_encoder_fit_distinct [OF assms]
  by (simp add: label_encoder_transform_def map_index_of_self)

lemma preprocess_data_ok:
  assumes "''weather'' \<in> set (columns df)" and "''date'' \<in> set (columns df)"
    and fit: "label_encoder_fit (column (drop_duplicates df) ''weather'') = Inr classes"
  shows "preprocess_data h p ops df =
    (if frame_empty (features (drop_duplicates df))
     then ([Warn_no_numeric_features],
           Inr ([(''weather'', IntCol (label_encoder_transform classes (column (drop_duplicates df) ''weather'')))],
                zip classes [0..<length classes]))
     else (dropped_warning (apply_cols (to_numeric p) (features (drop_duplicates df))),
           if prune (apply_cols (to_numeric p) (features (drop_duplicates df))) = []
           then Inl NoUsableFeatures
           else if list_ex (\<lambda>(c, vs). has_inf vs)
                     (apply_cols (fillna_mean ops)
                        (prune (apply_cols (to_numeric p) (features (drop_duplicates df)))))
           then Inl ScalerValueError
           else Inr (map (\<lambda>(c, vs). (c, FloatCol vs))
                       (apply_cols (transform_column ops) (apply_cols (fillna_mean ops)
                          (prune (apply_cols (to_numeric p) (features (drop_duplicates df))))))
                     @ [(''weather'', IntCol (label_encoder_transform classes (column (drop_duplicates df) ''weather'')))],
                     zip classes [0..<length classes])))"
proof -
  have "missing_cols h (drop_duplicates df) = []"
    using assms(1,2) by (simp add: missing_cols_Nil_iff columns_drop_duplicates)
  then show ?thesis
    by (simp add: preprocess_data_def Let_def fit label_mapping_eq [OF fit] scale_features_eq)
qed

lemma preprocess_data_Inr_schema:
  assumes "preprocess_data h p ops df = (ev, Inr res)"
  shows "''weather'' \<in> set (columns df) \<and> ''date'' \<in> set (columns df)"
proof (rule ccontr)
  assume "\<not> ?thesis"
  then have "''weather'' \<notin> set (columns df) \<or> ''date'' \<notin> set (columns df)" by blast
  from preprocess_data_schema_error [OF this, of h p ops] assms show False by simp
qed

lemma preprocess_data_Inr_fit:
  assumes "preprocess_data h p ops df = (ev, Inr res)"
  shows "\<exists>classes. label_encoder_fit (column (drop_duplicates df) ''weather'') = Inr classes"
proof (cases "label_encoder_fit (column (drop_duplicates df) ''weather'')")
  case (Inl e)
  have "missing_cols h (drop_duplicates df) = []"
    using preprocess_data_Inr_schema [OF assms]
    by (simp add: missing_cols_Nil_iff columns_drop_duplicates)
  then have "preprocess_data h p ops df = ([], Inl e)"
    by (simp add: preprocess_data_def Let_def Inl)
  with assms show ?thesis by simp
next
  case (Inr classes)
  then show ?thesis by blast
qed

lemmas pipeline_defs =
  preprocess_data_def drop_duplicates_def missing_cols_def py_set_iter_def required_cols_def
  features_def drop_columns_def column_def frame_empty_def label_encoder_fit_def
  label_encoder_transform_def scale_features_def apply_cols_def to_numeric_def all_na_cols_def
  drop_cols_def dropped_warning_def prune_def series_mean_def fillna_def fillna_mean_def
  has_inf_def transform_column_def fit_transform_def exact_arith_def exact_mean_def
  np_mean_def np_var_def parse_digits_def Let_def

lemma seattle_example_dedup:
  "drop_duplicates seattle_example =
     \<lparr>columns = [''date'', ''weather'', ''temp''],
      rows = [[Txt ''2020-01-01'', Txt ''rain'', Num 10],
              [Txt ''2020-01-02'', Txt ''sun'', Num 20]]\<rparr>"
  by (simp add: seattle_example_def drop_duplicates_def)

lemma seattle_example_run:
  "preprocess_data h p exact_arith seattle_example =
     ([], Inr ([(''temp'', FloatCol [Some (Finite (- 1)), Some (Finite 1)]), (''weather'', IntCol [0, 1])],
               [(Txt ''rain'', 0), (Txt ''sun'', 1)]))"
  by (simp add: seattle_example_def pipeline_defs power2_eq_square)



section \<open>The degenerate branch\<close>

lemma keep_first_Nil_iff: "keep_first [] xs = [] \<longleftrightarrow> xs = []"
  by (cases xs) simp_all

lemma rows_drop_duplicates_Nil_iff: "rows (drop_duplicates df) = [] \<longleftrightarrow> rows df = []"
  by (simp add: drop_duplicates_def keep_first_Nil_iff)

lemma two_required_columns:
  assumes "''weather'' \<in> set cs" and "''date'' \<in> set cs" and "length cs \<le> 2"
  shows "set cs = {''weather'', ''date''}"
proof -
  have sub: "{''weather'', ''date''} \<subseteq> set cs"
    using assms by simp
  have "card (set cs) \<le> 2"
    using card_length [of cs] assms(3) by linarith
  moreover have "card {''weather'', ''date''} = 2"
    by simp
  ultimately have "card (set cs) \<le> card {''weather'', ''date''}"
    by simp
  with sub show ?thesis
    by (metis List.finite_set card_seteq)
qed

lemma features_eq:
  assumes "''weather'' \<in> set (columns df)" and "''date'' \<in> set (columns df)"
  shows "features df =
    map (\<lambda>c. (c, column df c)) (filter (\<lambda>c. c \<noteq> ''weather'' \<and> c \<noteq> ''date'') (columns df))"
proof (cases "length (columns df) > 2")
  case True
  then show ?thesis
    by (simp add: features_def drop_columns_def)
next
  case False
  then have "set (columns df) = {''weather'', ''date''}"
    using two_required_columns [OF assms] by simp
  then have "filter (\<lambda>c. c \<noteq> ''weather'' \<and> c \<noteq> ''date'') (columns df) = []"
    by (auto simp: filter_empty_conv)
  with False show ?thesis
    by (simp add: features_def)
qed

lemma frame_empty_features:
  assumes "''weather'' \<in> set (columns df)" and "''date'' \<in> set (columns df)"
  shows "frame_empty (features df)
     \<longleftrightarrow> rows df = [] \<or> set (columns df) \<subseteq> {''weather'', ''date''}"
proof -
  let ?names = "filter (\<lambda>c. c \<noteq> ''weather'' \<and> c \<noteq> ''date'') (columns df)"
  have names: "?names = [] \<longleftrightarrow> set (columns df) \<subseteq> {''weather'', ''date''}"
    by (auto simp: filter_empty_conv)
  show ?thesis
  proof (cases ?names)
    case Nil
    then show ?thesis
      using names by (simp add: features_eq [OF assms] frame_empty_def)
  next
    case (Cons c cs)
    then have "\<not> set (columns df) \<subseteq> {''weather'', ''date''}"
      using names by simp
    then show ?thesis
      by (simp add: features_eq [OF assms] Cons frame_empty_def column_def)
  qed
qed

lemma target_only_example_run:
  "preprocess_data h p ops target_only_example =
     ([Warn_no_numeric_features],
      Inr ([(''weather'', IntCol [0, 1])], [(Txt ''rain'', 0), (Txt ''sun'', 1)]))"
  by (simp add: target_only_example_def pipeline_defs)

text \<open>
  Claim C2, as the code has it. The claim says that the degenerate branch is taken
  exactly when the Feature Matrix has no column. The code tests \<^verbatim>\<open>X.empty\<close>, which
  also holds of a frame with columns and no row: a table with a feature column and no
  row takes the degenerate branch.
\<close>

theorem C2_counterexample:
  "features (drop_duplicates header_only_example) = [(''temp'', [])]
   \<and> preprocess_data example_hash parse_digits exact_arith header_only_example
       = ([Warn_no_numeric_features], Inr ([(''weather'', IntCol [])], []))"
  by (simp add: header_only_example_def pipeline_defs)

text \<open>
  Claim C2, amended. For a table with both required columns whose target column the
  encoder accepts, the Feature Matrix is empty, and the run takes the degenerate
  branch, exactly when the table has no row or has no column other than \<open>weather\<close> and
  \<open>date\<close>. In that case the run logs the single warning about missing numeric features
  and returns the table holding only the integer column \<open>weather\<close>, with the Label
  Mapping; coercion, pruning, imputation and scaling are skipped. In every other case
  that warning is not logged and the outcome is that of the remaining steps: the events
  of the pruning step, and either the error of a frame without usable column, or the
  error of the scaler on an infinite value, or the scaled columns followed by
  \<open>weather\<close>.
\<close>

theorem C2_degenerate_branch:
  assumes "''weather'' \<in> set (columns df)" and "''date'' \<in> set (columns df)"
    and "label_encoder_fit (column (drop_duplicates df) ''weather'') = Inr classes"
    and "X_numeric = apply_cols (to_numeric parse) (features (drop_duplicates df))"
  shows "(frame_empty (features (drop_duplicates df))
          \<longleftrightarrow> rows df = [] \<or> set (columns df) \<subseteq> {''weather'', ''date''})
    \<and> preprocess_data hash parse ops df =
       (if rows df = [] \<or> set (columns df) \<subseteq> {''weather'', ''date''}
        then ([Warn_no_numeric_features],
              Inr ([(''weather'',
                     IntCol (label_encoder_transform classes (column (drop_duplicates df) ''weather'')))],
                   zip classes [0..<length classes]))
        else (dropped_warning X_numeric,
              if prune X_numeric = [] then Inl NoUsableFeatures
              else if list_ex (\<lambda>(c, vs). has_inf vs) (apply_cols (fillna_mean ops) (prune X_numeric))
              then Inl ScalerValueError
              else Inr (map (\<lambda>(c, vs). (c, FloatCol vs))
                          (apply_cols (transform_column ops)
                             (apply_cols (fillna_mean ops) (prune X_numeric)))
                        @ [(''weather'',
                            IntCol (label_encoder_transform classes (column (drop_duplicates df) ''weather'')))],
                        zip classes [0..<length classes])))
    \<and> (Warn_no_numeric_features \<in> set (fst (preprocess_data hash parse ops df))
          \<longleftrightarrow> rows df = [] \<or> set (columns df) \<subseteq> {''weather'', ''date''})"
proof -
  have empty: "frame_empty (features (drop_duplicates df))
      \<longleftrightarrow> rows df = [] \<or> set (columns df) \<subseteq> {''weather'', ''date''}"
    using frame_empty_features [of "drop_duplicates df"] assms(1,2)
    by (simp add: columns_drop_duplicates rows_drop_duplicates_Nil_iff)
  have run: "preprocess_data hash parse ops df =
       (if rows df = [] \<or> set (columns df) \<subseteq> {''weather'', ''date''}
        then ([Warn_no_numeric_features],
              Inr ([(''weather'',
                     IntCol (label_encoder_transform classes (column (drop_duplicates df) ''weather'')))],
                   zip classes [0..<length classes]))
        else (dropped_warning X_numeric,
              if prune X_numeric = [] then Inl NoUsableFeatures
              else if list_ex (\<lambda>(c, vs). has_inf vs) (apply_cols (fillna_mean ops) (prune X_numeric))
              then Inl ScalerValueError
              else Inr (map (\<lambda>(c, vs). (c, FloatCol vs))
                          (apply_cols (transform_column ops)
                             (apply_cols (fillna_mean ops) (prune X_numeric)))
                        @ [(''weather'',
                            IntCol (label_encoder_transform classes (column (drop_duplicates df) ''weather'')))],
                        zip classes [0..<length classes])))"
    unfolding preprocess_data_ok [OF assms(1,2,3)] empty assms(4) by (rule refl)
  have "Warn_no_numeric_features \<in> set (fst (preprocess_data hash parse ops df))
          \<longleftrightarrow> rows df = [] \<or> set (columns df) \<subseteq> {''weather'', ''date''}"
    unfolding run by (simp add: dropped_warning_def)
  with empty run show ?thesis by blast
qed

text \<open>
  The table with the two required columns takes the degenerate branch; the example of
  the specification does not.
\<close>

theorem C2_degenerate_branch_witness:
  "frame_empty (features (drop_duplicates target_only_example))
   \<and> preprocess_data example_hash parse_digits exact_arith target_only_example =
       ([Warn_no_numeric_features],
        Inr ([(''weather'', IntCol [0, 1])], [(Txt ''rain'', 0), (Txt ''sun'', 1)]))
   \<and> \<not> frame_empty (features (drop_duplicates seattle_example))
   \<and> Warn_no_numeric_features \<notin> set (fst (preprocess_data example_hash parse_digits exact_arith seattle_example))"
proof -
  have fit1: "label_encoder_fit (column (drop_duplicates target_only_example) ''weather'')
      = Inr [Txt ''rain'', Txt ''sun'']"
    by (simp add: target_only_example_def pipeline_defs)
  have fit2: "label_encoder_fit (column (drop_duplicates seattle_example) ''weather'')
      = Inr [Txt ''rain'', Txt ''sun'']"
    by (simp add: seattle_example_def pipeline_defs)
  have w1: "''weather'' \<in> set (columns target_only_example)"
    and d1: "''date'' \<in> set (columns target_only_example)"
    and r1: "set (columns target_only_example) \<subseteq> {''weather'', ''date''}"
    by (simp_all add: target_only_example_def)
  have w2: "''weather'' \<in> set (columns seattle_example)"
    and d2: "''date'' \<in> set (columns seattle_example)"
    and r2: "rows seattle_example \<noteq> []"
      "\<not> set (columns seattle_example) \<subseteq> {''weather'', ''date''}"
    by (simp_all add: seattle_example_def)
  have codes: "label_encoder_transform [Txt ''rain'', Txt ''sun'']
      (column (drop_duplicates target_only_example) ''weather'') = [0, 1]"
    by (simp add: target_only_example_def pipeline_defs)
  from C2_degenerate_branch [where hash = example_hash and parse = parse_digits and ops = exact_arith, OF w1 d1 fit1 refl] r1 codes
  have "frame_empty (features (drop_duplicates target_only_example))
    \<and> preprocess_data example_hash parse_digits exact_arith target_only_example =
       ([Warn_no_numeric_features],
        Inr ([(''weather'', IntCol [0, 1])], [(Txt ''rain'', 0), (Txt ''sun'', 1)]))"
    by simp
  moreover from C2_degenerate_branch [where hash = example_hash and parse = parse_digits and ops = exact_arith, OF w2 d2 fit2 refl] r2
  have "\<not> frame_empty (features (drop_duplicates seattle_example))
   \<and> Warn_no_numeric_features \<notin> set (fst (preprocess_data example_hash parse_digits exact_arith seattle_example))"
    by blast
  ultimately show ?thesis by blast
qed

section \<open>Coercion and pruning\<close>

lemma all_na_cols_columns:
  "all_na_cols (map (\<lambda>c. (c, to_numeric p (column df c))) names)
     = filter (\<lambda>c. list_all (\<lambda>v. to_numeric_cell p v = None) (column df c)) names"
  by (induction names) (simp_all add: all_na_cols_def to_numeric_def list.pred_map o_def)

lemma prune_columns:
  "prune (map (\<lambda>c. (c, g c)) names)
     = map (\<lambda>c. (c, g c)) (filter (\<lambda>c. c \<notin> set (all_na_cols (map (\<lambda>c. (c, g c)) names))) names)"
proof (cases "all_na_cols (map (\<lambda>c. (c, g c)) names) = []")
  case True
  then show ?thesis by (simp add: prune_def)
next
  case False
  have "filter (\<lambda>(c, vs). c \<notin> A) (map (\<lambda>c. (c, g c)) names)
      = map (\<lambda>c. (c, g c)) (filter (\<lambda>c. c \<notin> A) names)" for A :: "string set"
    by (induction names) auto
  with False show ?thesis
    by (simp add: prune_def drop_cols_def)
qed

lemma apply_cols_columns: "apply_cols f (map (\<lambda>c. (c, g c)) names) = map (\<lambda>c. (c, f (g c))) names"
  by (simp add: apply_cols_def)

text \<open>The steps after the degenerate test, by column label.\<close>

lemma preprocess_data_features:
  assumes w: "''weather'' \<in> set (columns df)" and d: "''date'' \<in> set (columns df)"
    and fit: "label_encoder_fit (column (drop_duplicates df) ''weather'') = Inr classes"
    and rows: "rows df \<noteq> []"
    and names: "names = filter (\<lambda>c. c \<noteq> ''weather'' \<and> c \<noteq> ''date'') (columns df)"
    and ne: "names \<noteq> []"
    and dropped: "dropped = filter (\<lambda>c. list_all (\<lambda>v. to_numeric_cell p v = None)
                      (column (drop_duplicates df) c)) names"
  shows "apply_cols (to_numeric p) (features (drop_duplicates df))
           = map (\<lambda>c. (c, to_numeric p (column (drop_duplicates df) c))) names"
    and "all_na_cols (apply_cols (to_numeric p) (features (drop_duplicates df))) = dropped"
    and "prune (apply_cols (to_numeric p) (features (drop_duplicates df)))
           = map (\<lambda>c. (c, to_numeric p (column (drop_duplicates df) c)))
               (filter (\<lambda>c. c \<notin> set dropped) names)"
    and "preprocess_data h p ops df =
      (if dropped = [] then [] else [Warn_dropped_columns dropped],
       if filter (\<lambda>c. c \<notin> set dropped) names = [] then Inl NoUsableFeatures
       else if list_ex (\<lambda>c. has_inf (fillna_mean ops (to_numeric p (column (drop_duplicates df) c))))
                 (filter (\<lambda>c. c \<notin> set dropped) names)
       then Inl ScalerValueError
       else Inr (map (\<lambda>c. (c, FloatCol (transform_column ops (fillna_mean ops
                        (to_numeric p (column (drop_duplicates df) c))))))
                   (filter (\<lambda>c. c \<notin> set dropped) names)
                 @ [(''weather'',
                     IntCol (label_encoder_transform classes (column (drop_duplicates df) ''weather'')))],
                 zip classes [0..<length classes]))"
proof -
  let ?df = "drop_duplicates df"
  let ?Xn = "apply_cols (to_numeric p) (features ?df)"
  have w': "''weather'' \<in> set (columns ?df)" and d': "''date'' \<in> set (columns ?df)"
    using w d by (simp_all add: columns_drop_duplicates)
  have feats: "features ?df = map (\<lambda>c. (c, column ?df c)) names"
    using features_eq [OF w' d'] by (simp add: names columns_drop_duplicates)
  show Xn: "?Xn = map (\<lambda>c. (c, to_numeric p (column ?df c))) names"
    by (simp add: feats apply_cols_columns)
  show na: "all_na_cols ?Xn = dropped"
    by (simp add: Xn all_na_cols_columns dropped)
  show pr: "prune ?Xn = map (\<lambda>c. (c, to_numeric p (column ?df c))) (filter (\<lambda>c. c \<notin> set dropped) names)"
    using prune_columns [of "\<lambda>c. to_numeric p (column ?df c)" names] na by (simp add: Xn)
  have ne': "\<not> frame_empty (features ?df)"
    using frame_empty_features [OF w' d'] rows ne
    by (auto simp: names rows_drop_duplicates_Nil_iff columns_drop_duplicates filter_empty_conv)
  show "preprocess_data h p ops df =
      (if dropped = [] then [] else [Warn_dropped_columns dropped],
       if filter (\<lambda>c. c \<notin> set dropped) names = [] then Inl NoUsableFeatures
       else if list_ex (\<lambda>c. has_inf (fillna_mean ops (to_numeric p (column ?df c))))
                 (filter (\<lambda>c. c \<notin> set dropped) names)
       then Inl ScalerValueError
       else Inr (map (\<lambda>c. (c, FloatCol (transform_column ops (fillna_mean ops (to_numeric p (column ?df c))))))
                   (filter (\<lambda>c. c \<notin> set dropped) names)
                 @ [(''weather'', IntCol (label_encoder_transform classes (column ?df ''weather'')))],
                 zip classes [0..<length classes]))"
  proof -
    let ?kept = "filter (\<lambda>c. c \<notin> set dropped) names"
    have fill: "apply_cols (fillna_mean ops) (prune ?Xn)
        = map (\<lambda>c. (c, fillna_mean ops (to_numeric p (column ?df c)))) ?kept"
      by (simp only: pr apply_cols_columns)
    have inf: "list_ex (\<lambda>(c, vs). has_inf vs) (apply_cols (fillna_mean ops) (prune ?Xn))
        = list_ex (\<lambda>c. has_inf (fillna_mean ops (to_numeric p (column ?df c)))) ?kept"
      unfolding fill by (simp add: list_ex_iff del: set_filter)
    have tr: "map (\<lambda>(c, vs). (c, FloatCol vs))
          (apply_cols (transform_column ops) (apply_cols (fillna_mean ops) (prune ?Xn)))
        = map (\<lambda>c. (c, FloatCol (transform_column ops (fillna_mean ops (to_numeric p (column ?df c))))))
            ?kept"
      unfolding fill apply_cols_columns by (simp add: o_def)
    have pe: "prune ?Xn = [] \<longleftrightarrow> ?kept = []"
      unfolding pr by simp
    have dw: "dropped_warning ?Xn = (if dropped = [] then [] else [Warn_dropped_columns dropped])"
      by (simp add: dropped_warning_def na)
    show ?thesis
      unfolding preprocess_data_ok [OF w d fit] inf tr pe dw using ne' by (simp only: if_False)
  qed
qed




section \<open>Assembly\<close>

lemma length_column: "length (column df c) = length (rows df)"
  by (simp add: column_def)

lemma length_to_numeric: "length (to_numeric p vs) = length vs"
  by (simp add: to_numeric_def)

lemma length_fillna_mean: "length (fillna_mean ops vs) = length vs"
  by (simp add: fillna_mean_def fillna_def)

lemma length_transform_column: "length (transform_column ops vs) = length vs"
  by (simp add: transform_column_def)

lemma preprocess_data_Inr_features:
  assumes run: "preprocess_data h p ops df = (events, Inr (tbl, lm))"
    and rows: "rows df \<noteq> []"
    and names: "names = filter (\<lambda>c. c \<noteq> ''weather'' \<and> c \<noteq> ''date'') (columns df)"
    and ne: "names \<noteq> []"
    and dropped: "dropped = filter (\<lambda>c. list_all (\<lambda>v. to_numeric_cell p v = None)
                      (column (drop_duplicates df) c)) names"
    and kept: "kept = filter (\<lambda>c. c \<notin> set dropped) names"
  shows "kept \<noteq> []"
    and "events = (if dropped = [] then [] else [Warn_dropped_columns dropped])"
    and "tbl = map (\<lambda>c. (c, FloatCol (transform_column ops (fillna_mean ops
                        (to_numeric p (column (drop_duplicates df) c)))))) kept
                 @ [(''weather'',
                     IntCol (map (\<lambda>v. index_of v (map fst lm)) (column (drop_duplicates df) ''weather'')))]"
    and "prune (apply_cols (to_numeric p) (features (drop_duplicates df)))
           = map (\<lambda>c. (c, to_numeric p (column (drop_duplicates df) c))) kept"
    and "\<not> list_ex (\<lambda>c. has_inf (fillna_mean ops (to_numeric p (column (drop_duplicates df) c))))
            kept"
proof -
  note schema = preprocess_data_Inr_schema [OF run]
  from preprocess_data_Inr_fit [OF run] obtain classes
    where fit: "label_encoder_fit (column (drop_duplicates df) ''weather'') = Inr classes" by blast
  note facts = preprocess_data_features
    [OF conjunct1 [OF schema] conjunct2 [OF schema] fit rows names ne dropped]
  have res: "(events, Inr (tbl, lm)) =
      (if dropped = [] then [] else [Warn_dropped_columns dropped],
       if kept = [] then Inl NoUsableFeatures
       else if list_ex (\<lambda>c. has_inf (fillna_mean ops (to_numeric p (column (drop_duplicates df) c))))
                 kept
       then Inl ScalerValueError
       else Inr (map (\<lambda>c. (c, FloatCol (transform_column ops (fillna_mean ops
                        (to_numeric p (column (drop_duplicates df) c)))))) kept
                 @ [(''weather'',
                     IntCol (label_encoder_transform classes (column (drop_duplicates df) ''weather'')))],
                 zip classes [0..<length classes]))"
    using facts(4) [of h ops] run by (simp add: kept)
  then show k: "kept \<noteq> []"
    by (auto split: if_splits)
  from res k show fin: "\<not> list_ex (\<lambda>c. has_inf (fillna_mean ops
        (to_numeric p (column (drop_duplicates df) c)))) kept"
    by (auto split: if_splits)
  from res show "events = (if dropped = [] then [] else [Warn_dropped_columns dropped])"
    by simp
  from res k fin have "lm = zip classes [0..<length classes]"
    by simp
  then have "map fst lm = classes"
    by simp
  with res k fin show "tbl = map (\<lambda>c. (c, FloatCol (transform_column ops (fillna_mean ops
                        (to_numeric p (column (drop_duplicates df) c)))))) kept
                 @ [(''weather'',
                     IntCol (map (\<lambda>v. index_of v (map fst lm)) (column (drop_duplicates df) ''weather'')))]"
    by (simp add: label_encoder_transform_def)
  show "prune (apply_cols (to_numeric p) (features (drop_duplicates df)))
           = map (\<lambda>c. (c, to_numeric p (column (drop_duplicates df) c))) kept"
    by (simp add: facts(3) kept)
qed

text \<open>
  Claim C8. Take a run that returns on the non-degenerate path (the table has a row and
  a feature column); \<open>kept\<close> are the feature columns that pruning leaves, in their
  original relative order. Then \<open>kept\<close> is not empty, and the Processed Table consists
  of the columns \<open>kept\<close>, each the scaled, imputed, coerced column of that name of the
  de-duplicated table, followed by the integer column \<open>weather\<close>, last. Every column has
  as many entries as the de-duplicated table has rows, and the entries follow its row
  order: for every kept column \<open>c\<close> and row \<open>i\<close>, entry \<open>i\<close> of the scaled column is the
  scaled value of entry \<open>i\<close> of the imputed column, which is the coerced cell of row
  \<open>i\<close> (or the column mean where that is missing), and entry \<open>i\<close> of \<open>weather\<close> is the
  code of the target value of row \<open>i\<close>.
\<close>

theorem C8_assembly:
  assumes "preprocess_data hash parse ops df = (events, Inr (tbl, lm))"
    and "rows df \<noteq> []"
    and "names = filter (\<lambda>c. c \<noteq> ''weather'' \<and> c \<noteq> ''date'') (columns df)"
    and "names \<noteq> []"
    and "dropped = filter (\<lambda>c. list_all (\<lambda>v. to_numeric_cell parse v = None)
                      (column (drop_duplicates df) c)) names"
    and "kept = filter (\<lambda>c. c \<notin> set dropped) names"
    and "imputed = fillna_mean ops (to_numeric parse (column (drop_duplicates df) c))"
  shows "kept \<noteq> []
    \<and> map fst tbl = kept @ [''weather'']
    \<and> tbl = map (\<lambda>c. (c, FloatCol (transform_column ops (fillna_mean ops
                        (to_numeric parse (column (drop_duplicates df) c)))))) kept
             @ [(''weather'',
                 IntCol (map (\<lambda>v. index_of v (map fst lm)) (column (drop_duplicates df) ''weather'')))]
    \<and> list_all (\<lambda>(c, s). series_length s = length (rows (drop_duplicates df))) tbl
    \<and> (c \<in> set kept \<and> i < length (rows (drop_duplicates df)) \<longrightarrow>
         (c, FloatCol (transform_column ops imputed)) \<in> set tbl
         \<and> transform_column ops imputed ! i
             = (case imputed ! i of None \<Rightarrow> None | Some x \<Rightarrow> scale_of ops (present imputed) x)
         \<and> imputed ! i
             = (case to_numeric_cell parse (rows (drop_duplicates df) ! i ! index_of c (columns df)) of
                  None \<Rightarrow> series_mean ops (to_numeric parse (column (drop_duplicates df) c))
                | Some x \<Rightarrow> Some x))
    \<and> (i < length (rows (drop_duplicates df)) \<longrightarrow>
         (\<exists>codes. last tbl = (''weather'', IntCol codes)
            \<and> codes ! i = index_of (rows (drop_duplicates df) ! i ! index_of ''weather'' (columns df))
                            (map fst lm)))"
proof -
  let ?df = "drop_duplicates df"
  let ?n = "length (rows ?df)"
  note facts = preprocess_data_Inr_features [OF assms(1-6)]
  let ?codes = "map (\<lambda>v. index_of v (map fst lm)) (column ?df ''weather'')"
  have tbl: "tbl = map (\<lambda>c. (c, FloatCol (transform_column ops (fillna_mean ops
                        (to_numeric parse (column ?df c)))))) kept
             @ [(''weather'', IntCol ?codes)]"
    by (rule facts(3))
  have names_tbl: "map fst tbl = kept @ [''weather'']"
    unfolding tbl by (simp add: o_def)
  have lens: "list_all (\<lambda>(c, s). series_length s = ?n) tbl"
    unfolding tbl
    by (simp add: list_all_iff length_transform_column length_fillna_mean length_to_numeric
          length_column)
  have cell: "c \<in> set kept \<and> i < length (rows (drop_duplicates df)) \<longrightarrow>
         (c, FloatCol (transform_column ops imputed)) \<in> set tbl
         \<and> transform_column ops imputed ! i
             = (case imputed ! i of None \<Rightarrow> None | Some x \<Rightarrow> scale_of ops (present imputed) x)
         \<and> imputed ! i
             = (case to_numeric_cell parse (rows (drop_duplicates df) ! i ! index_of c (columns df)) of
                  None \<Rightarrow> series_mean ops (to_numeric parse (column (drop_duplicates df) c))
                | Some x \<Rightarrow> Some x)"
  proof (intro impI conjI)
    assume ci: "c \<in> set kept \<and> i < ?n"
    have "(c, FloatCol (transform_column ops (fillna_mean ops (to_numeric parse (column ?df c)))))
        \<in> (\<lambda>c. (c, FloatCol (transform_column ops (fillna_mean ops (to_numeric parse (column ?df c)))))) ` set kept"
      using ci by (intro imageI) simp
    then show "(c, FloatCol (transform_column ops imputed)) \<in> set tbl"
      unfolding tbl assms(7) by simp
    have len: "length imputed = ?n"
      by (simp add: assms(7) length_fillna_mean length_to_numeric length_column)
    with ci show "transform_column ops imputed ! i
             = (case imputed ! i of None \<Rightarrow> None | Some x \<Rightarrow> scale_of ops (present imputed) x)"
      by (simp add: transform_column_def)
    have "imputed ! i
             = (case to_numeric parse (column ?df c) ! i of
                  None \<Rightarrow> series_mean ops (to_numeric parse (column ?df c))
                | Some x \<Rightarrow> Some x)"
      using ci by (simp add: assms(7) fillna_mean_def fillna_def length_to_numeric length_column)
    moreover have "to_numeric parse (column ?df c) ! i
        = to_numeric_cell parse (rows ?df ! i ! index_of c (columns df))"
      using ci by (simp add: to_numeric_def column_def columns_drop_duplicates)
    ultimately show "imputed ! i
             = (case to_numeric_cell parse (rows ?df ! i ! index_of c (columns df)) of
                  None \<Rightarrow> series_mean ops (to_numeric parse (column ?df c))
                | Some x \<Rightarrow> Some x)"
      by (simp only:)
  qed
  have target: "i < length (rows (drop_duplicates df)) \<longrightarrow>
         (\<exists>codes. last tbl = (''weather'', IntCol codes)
            \<and> codes ! i = index_of (rows (drop_duplicates df) ! i ! index_of ''weather'' (columns df))
                            (map fst lm))"
  proof
    assume i: "i < ?n"
    have "last tbl = (''weather'', IntCol ?codes)"
      unfolding tbl by simp
    moreover have "?codes ! i = index_of (rows ?df ! i ! index_of ''weather'' (columns df)) (map fst lm)"
      using i by (simp add: column_def columns_drop_duplicates)
    ultimately show "\<exists>codes. last tbl = (''weather'', IntCol codes)
            \<and> codes ! i = index_of (rows ?df ! i ! index_of ''weather'' (columns df)) (map fst lm)"
      by (intro exI conjI)
  qed
  from facts(1) names_tbl tbl lens cell target show ?thesis
    by (intro conjI)
qed

text \<open>
  The example of the specification: the columns \<open>temp, weather\<close>, two rows each.
\<close>

theorem C8_assembly_witness:
  "preprocess_data example_hash parse_digits exact_arith seattle_example =
     ([], Inr ([(''temp'', FloatCol [Some (Finite (- 1)), Some (Finite 1)]), (''weather'', IntCol [0, 1])],
               [(Txt ''rain'', 0), (Txt ''sun'', 1)]))
   \<and> length (rows (drop_duplicates seattle_example)) = 2
   \<and> map fst [(''temp'', FloatCol [Some (Finite (- 1)), Some (Finite 1)]), (''weather'', IntCol [0, 1])]
       = [''temp''] @ [''weather'']
   \<and> list_all (\<lambda>(c, s). series_length s = length (rows (drop_duplicates seattle_example)))
       [(''temp'', FloatCol [Some (Finite (- 1)), Some (Finite 1)]), (''weather'', IntCol [0, 1])]"
proof -
  have run: "preprocess_data example_hash parse_digits exact_arith seattle_example =
     ([], Inr ([(''temp'', FloatCol [Some (Finite (- 1)), Some (Finite 1)]), (''weather'', IntCol [0, 1])],
               [(Txt ''rain'', 0), (Txt ''sun'', 1)]))"
    by (rule seattle_example_run)
  have r: "rows seattle_example \<noteq> []"
    by (simp add: seattle_example_def)
  have names: "[''temp''] = filter (\<lambda>c. c \<noteq> ''weather'' \<and> c \<noteq> ''date'') (columns seattle_example)"
    by (simp add: seattle_example_def)
  have dropped: "[] = filter (\<lambda>c. list_all (\<lambda>v. to_numeric_cell parse_digits v = None)
        (column (drop_duplicates seattle_example) c)) [''temp'']"
    by (simp add: seattle_example_dedup column_def)
  have kept: "[''temp''] = filter (\<lambda>c. c \<notin> set []) [''temp'']"
    by simp
  have n: "length (rows (drop_duplicates seattle_example)) = 2"
    by (simp add: seattle_example_dedup)
  have ne: "[''temp''] \<noteq> []"
    by simp
  note inst = C8_assembly [OF run r names ne dropped kept refl, of "''temp''" 1]
  have "map fst [(''temp'', FloatCol [Some (Finite (- 1)), Some (Finite 1)]), (''weather'', IntCol [0, 1])]
       = [''temp''] @ [''weather'']"
    using inst by (elim conjE) simp
  moreover have "list_all (\<lambda>(c, s). series_length s = length (rows (drop_duplicates seattle_example)))
       [(''temp'', FloatCol [Some (Finite (- 1)), Some (Finite 1)]), (''weather'', IntCol [0, 1])]"
    using inst by (elim conjE) simp
  ultimately show ?thesis
    using run n by (intro conjI)
qed

section \<open>Determinism\<close>

text \<open>
  The order in which the set of missing names is iterated does depend on the hash: the
  same table gives \<open>weather, date\<close> under \<open>example_hash\<close> and \<open>date, weather\<close> under
  the hash that is the length of the string.
\<close>

lemma missing_cols_depends_on_hash:
  "missing_cols example_hash temp_only_example = [''weather'', ''date'']"
  "missing_cols length temp_only_example = [''date'', ''weather'']"
  by (simp_all add: missing_cols_def py_set_iter_def required_cols_def example_hash_def
        temp_only_example_def)

lemma preprocess_data_fit_error:
  assumes "''weather'' \<in> set (columns df)" and "''date'' \<in> set (columns df)"
    and fit: "label_encoder_fit (column (drop_duplicates df) ''weather'') = Inl e"
  shows "preprocess_data h p ops df = ([], Inl e)"
proof -
  have "missing_cols h (drop_duplicates df) = []"
    using assms(1,2) by (simp add: missing_cols_Nil_iff columns_drop_duplicates)
  then show ?thesis
    by (simp add: preprocess_data_def Let_def fit)
qed

text \<open>
  Claim C9. The outcome of a run (the events, and the error or the Processed Table with
  the Label Mapping) is a function of the Raw Table alone: two runs on the same table,
  with the same libraries, give the same outcome whatever the string hashes of the two
  processes, that is,
  whatever the order in which each run iterates the set of missing column names. The
  encoder and the scaler are fitted within the run, so no other state enters it.
\<close>

theorem C9_deterministic:
  "preprocess_data hash1 parse ops df = preprocess_data hash2 parse ops df"
proof (cases "''weather'' \<in> set (columns df) \<and> ''date'' \<in> set (columns df)")
  case False
  then have "''weather'' \<notin> set (columns df) \<or> ''date'' \<notin> set (columns df)"
    by blast
  then show ?thesis
    by (simp only: preprocess_data_schema_error)
next
  case True
  then have w: "''weather'' \<in> set (columns df)" and d: "''date'' \<in> set (columns df)"
    by blast+
  show ?thesis
  proof (cases "label_encoder_fit (column (drop_duplicates df) ''weather'')")
    case (Inl e)
    then show ?thesis
      by (simp only: preprocess_data_fit_error [OF w d Inl])
  next
    case (Inr classes)
    then show ?thesis
      by (simp only: preprocess_data_ok [OF w d Inr])
  qed
qed

section \<open>Imputation\<close>











section \<open>Constant columns\<close>











end
